theory Spec2Isabelle
  imports Main
begin

section \<open>The request runner of \<open>TOOLS API CALLS/1-basic.py\<close>\<close>

text \<open>
  The script is four statements long:
  \<^verbatim>\<open>
  client = OpenAI(api_key=os.getenv("OPENAI_API_KEY"))
  completion = client.chat.completions.create(model="gpt-4o", messages=[...])
  response = completion.choices[0].message.content
  print(response)
  \<close>
  Everything it does is an effect on the outside world: one read of the process
  environment, one call into the client library, one write to standard output. The
  model therefore threads a record of the observable effects (\<open>proc\<close>) through the
  statements, and takes what the outside world answers (\<open>world\<close>) as a parameter.
  An exception is a value \<open>Inl e\<close>; the statement that raises returns the effects
  made so far, and nothing after it runs.
\<close>

subsection \<open>Python values\<close>

text \<open>The keyword arguments of the call are strings, lists and dicts (in source order).\<close>

datatype py_value =
    Str string
  | List "py_value list"
  | Dict "(string \<times> py_value) list"

text \<open>
  What the call can fail with, in the words of the design (network error,
  authentication error, malformed response).
\<close>

datatype call_failure = NetworkError | AuthenticationError | MalformedResponse

datatype py_error =
    OpenAIError
  | APIError call_failure
  | IndexError

subsection \<open>The completion returned by the service\<close>

text \<open>
  \<open>completion.choices[0].message.content\<close>: a completion holds a list of choices, a
  choice holds a message, and the content of a message is an optional string
  (\<open>None\<close> in Python when absent).
\<close>

record chat_message =
  content :: "string option"

record chat_choice =
  message :: chat_message

record chat_completion =
  choices :: "chat_choice list"

subsection \<open>Client, request, outside world, observable effects\<close>

record client =
  api_key :: string

record request =
  credential :: string
  params :: "(string \<times> py_value) list"

text \<open>
  The outside world of one run: the process environment, and what the hosted service
  answers to a request during this run (the service need not answer the same in
  another run, which is another world).
\<close>

record world =
  environ :: "string \<Rightarrow> string option"
  service :: "request \<Rightarrow> call_failure + chat_completion"

text \<open>
  What a run has done so far: the variables it has read, the requests it has issued,
  the text it has written, each in order.
\<close>

record proc =
  env_reads :: "string list"
  outbound :: "request list"
  stdout :: string

definition start :: proc where
  "start = \<lparr>env_reads = [], outbound = [], stdout = []\<rparr>"

subsection \<open>The library calls the script makes\<close>

text \<open>\<open>os.getenv(name)\<close>: the value of the variable, or \<open>None\<close> when it is not set.\<close>

definition getenv :: "world \<Rightarrow> string \<Rightarrow> proc \<Rightarrow> string option \<times> proc" where
  "getenv w name s = (environ w name, s\<lparr>env_reads := env_reads s @ [name]\<rparr>)"

text \<open>
  Modelled from the spec: the constructor \<open>OpenAI(api_key=...)\<close> of the third-party
  client library, which is not part of the repository. The design says of the
  credential: "read the credential from the environment; fail immediately if absent",
  and "an opaque string [...] not validated locally". So the constructor raises on
  \<open>None\<close> and keeps any string as it is.
\<close>

definition OpenAI :: "string option \<Rightarrow> py_error + client" where
  "OpenAI key = (case key of None \<Rightarrow> Inl OpenAIError | Some k \<Rightarrow> Inr \<lparr>api_key = k\<rparr>)"

text \<open>
  Modelled from the spec: \<open>client.chat.completions.create(**kwargs)\<close> of the same
  library. The design says: "Issue one blocking call identifying a target model name
  and the message sequence", "One outbound request to a hosted chat-completion
  endpoint", and failures are "left to the underlying client to raise". So the call
  sends one request, carrying the client's credential and the keyword arguments as
  given, and returns the completion or raises what the service call failed with.
\<close>

definition create ::
  "world \<Rightarrow> client \<Rightarrow> (string \<times> py_value) list \<Rightarrow> proc \<Rightarrow> (py_error + chat_completion) \<times> proc"
where
  "create w c kwargs s =
     (let r = \<lparr>credential = api_key c, params = kwargs\<rparr>;
          s' = s\<lparr>outbound := outbound s @ [r]\<rparr>
      in case service w r of
           Inl f \<Rightarrow> (Inl (APIError f), s')
         | Inr completion \<Rightarrow> (Inr completion, s'))"

text \<open>
  \<open>xs[i]\<close> on a Python list: a negative index counts from the end, and an index
  outside the list raises \<open>IndexError\<close>.
\<close>

definition getitem :: "'a list \<Rightarrow> int \<Rightarrow> py_error + 'a" where
  "getitem xs i =
     (if 0 \<le> i \<and> i < int (length xs) then Inr (xs ! nat i)
      else if i < 0 \<and> - int (length xs) \<le> i then Inr (xs ! nat (int (length xs) + i))
      else Inl IndexError)"

text \<open>\<open>str(v)\<close> for an optional string: the string itself, and \<open>None\<close> reads "None".\<close>

definition py_str :: "string option \<Rightarrow> string" where
  "py_str v = (case v of None \<Rightarrow> ''None'' | Some s \<Rightarrow> s)"

text \<open>
  \<open>print(v)\<close>: writes \<open>str(v)\<close> and the line end \<open>"\n"\<close> to standard output,
  which is taken to accept every string.
\<close>

definition print :: "string option \<Rightarrow> proc \<Rightarrow> proc" where
  "print v s = s\<lparr>stdout := stdout s @ py_str v @ [CHR 0x0A]\<rparr>"

subsection \<open>The script\<close>

definition main :: "world \<Rightarrow> (py_error + unit) \<times> proc" where
  "main w =
     (case getenv w ''OPENAI_API_KEY'' start of
        (key, s1) \<Rightarrow>
          (case OpenAI key of
             Inl e \<Rightarrow> (Inl e, s1)
           | Inr client \<Rightarrow>
               (case create w client
                       [(''model'', Str ''gpt-4o''),
                        (''messages'',
                         List [Dict [(''role'', Str ''system''),
                                     (''content'', Str ''You're a helpful assistant.'')],
                               Dict [(''role'', Str ''user''),
                                     (''content'',
                                      Str ''Write a limerick about the Python programming language.'')]])]
                       s1 of
                  (Inl e, s2) \<Rightarrow> (Inl e, s2)
                | (Inr completion, s2) \<Rightarrow>
                    (case getitem (choices completion) 0 of
                       Inl e \<Rightarrow> (Inl e, s2)
                     | Inr choice \<Rightarrow>
                         (let response = content (message choice)
                          in (Inr (), print response s2))))))"

text \<open>
  The status the interpreter exits with: 0 when the script runs to its end, 1 when an
  exception reaches the top level (after the traceback, which goes to standard error).
\<close>

definition exit_status :: "py_error + unit \<Rightarrow> nat" where
  "exit_status r = (case r of Inl e \<Rightarrow> 1 | Inr u \<Rightarrow> 0)"

subsection \<open>The request of the script, and outside worlds to run it in\<close>

text \<open>
  The request that the call of the script amounts to when the client holds the
  credential \<open>k\<close>: the keyword arguments are those written in the script.
\<close>

definition sent :: "string \<Rightarrow> request" where
  "sent k =
     \<lparr>credential = k,
      params =
        [(''model'', Str ''gpt-4o''),
         (''messages'',
          List [Dict [(''role'', Str ''system''),
                      (''content'', Str ''You're a helpful assistant.'')],
                Dict [(''role'', Str ''user''),
                      (''content'',
                       Str ''Write a limerick about the Python programming language.'')]])]\<rparr>"


text \<open>A service that answers every request with two candidate limericks.\<close>

definition two_choices :: chat_completion where
  "two_choices =
     \<lparr>choices = [\<lparr>message = \<lparr>content = Some ''There once was a snake''\<rparr>\<rparr>,
                 \<lparr>message = \<lparr>content = Some ''A second candidate''\<rparr>\<rparr>]\<rparr>"

definition good_world :: world where
  "good_world =
     \<lparr>environ = (\<lambda>name. if name = ''OPENAI_API_KEY'' then Some ''sk-test'' else None),
      service = (\<lambda>r. Inr two_choices)\<rparr>"

text \<open>The same service, and no credential in the environment.\<close>

definition no_key_world :: world where
  "no_key_world = \<lparr>environ = (\<lambda>name. None), service = (\<lambda>r. Inr two_choices)\<rparr>"

text \<open>A credential that the service rejects.\<close>

definition rejecting_world :: world where
  "rejecting_world =
     \<lparr>environ = (\<lambda>name. if name = ''OPENAI_API_KEY'' then Some ''sk-test'' else None),
      service = (\<lambda>r. Inl AuthenticationError)\<rparr>"

text \<open>A service that answers with a completion that holds no choice.\<close>

definition no_choice_world :: world where
  "no_choice_world =
     \<lparr>environ = (\<lambda>name. if name = ''OPENAI_API_KEY'' then Some ''sk-test'' else None),
      service = (\<lambda>r. Inr \<lparr>choices = []\<rparr>)\<rparr>"

text \<open>A service that answers with one choice whose message has no content.\<close>

definition null_content_world :: world where
  "null_content_world =
     \<lparr>environ = (\<lambda>name. if name = ''OPENAI_API_KEY'' then Some ''sk-test'' else None),
      service = (\<lambda>r. Inr \<lparr>choices = [\<lparr>message = \<lparr>content = None\<rparr>\<rparr>]\<rparr>)\<rparr>"

text \<open>A service that answers with one choice whose content is the empty string.\<close>

definition empty_content_world :: world where
  "empty_content_world =
     \<lparr>environ = (\<lambda>name. if name = ''OPENAI_API_KEY'' then Some ''sk-test'' else None),
      service = (\<lambda>r. Inr \<lparr>choices = [\<lparr>message = \<lparr>content = Some []\<rparr>\<rparr>]\<rparr>)\<rparr>"

text \<open>A variable that is set, to a string that is no credential at all.\<close>

definition odd_key_world :: world where
  "odd_key_world =
     \<lparr>environ = (\<lambda>name. if name = ''OPENAI_API_KEY'' then Some ''not a key'' else None),
      service = (\<lambda>r. Inl AuthenticationError)\<rparr>"

section \<open>What a run does, case by case\<close>

text \<open>The four ways a run can go, each with the complete effects it leaves behind.\<close>

lemma main_no_key:
  assumes "environ w ''OPENAI_API_KEY'' = None"
  shows "main w =
    (Inl OpenAIError, \<lparr>env_reads = [''OPENAI_API_KEY''], outbound = [], stdout = []\<rparr>)"
  using assms by (simp add: main_def getenv_def OpenAI_def start_def)

lemma main_call_fails:
  assumes "environ w ''OPENAI_API_KEY'' = Some k" and "service w (sent k) = Inl f"
  shows "main w =
    (Inl (APIError f), \<lparr>env_reads = [''OPENAI_API_KEY''], outbound = [sent k], stdout = []\<rparr>)"
  using assms
  by (simp add: main_def getenv_def OpenAI_def create_def start_def sent_def Let_def)

lemma main_no_choice:
  assumes "environ w ''OPENAI_API_KEY'' = Some k" and "service w (sent k) = Inr c"
    and "choices c = []"
  shows "main w =
    (Inl IndexError, \<lparr>env_reads = [''OPENAI_API_KEY''], outbound = [sent k], stdout = []\<rparr>)"
  using assms
  by (simp add: main_def getenv_def OpenAI_def create_def start_def sent_def getitem_def Let_def)

lemma main_prints:
  assumes "environ w ''OPENAI_API_KEY'' = Some k" and "service w (sent k) = Inr c"
    and "choices c = ch # rest"
  shows "main w =
    (Inr (), \<lparr>env_reads = [''OPENAI_API_KEY''], outbound = [sent k],
              stdout = py_str (content (message ch)) @ [CHR 0x0A]\<rparr>)"
  using assms
  by (simp add: main_def getenv_def OpenAI_def create_def start_def sent_def getitem_def
      print_def Let_def)

text \<open>Every run is one of the four.\<close>

lemma main_cases:
  obtains
    (no_key) "environ w ''OPENAI_API_KEY'' = None"
  | (call_fails) k f where "environ w ''OPENAI_API_KEY'' = Some k" "service w (sent k) = Inl f"
  | (no_choice) k c where "environ w ''OPENAI_API_KEY'' = Some k" "service w (sent k) = Inr c"
      "choices c = []"
  | (prints) k c ch rest where "environ w ''OPENAI_API_KEY'' = Some k"
      "service w (sent k) = Inr c" "choices c = ch # rest"
proof (cases "environ w ''OPENAI_API_KEY''")
  case None
  then show ?thesis by (rule no_key)
next
  case (Some k)
  show ?thesis
  proof (cases "service w (sent k)")
    case (Inl f)
    with Some show ?thesis by (rule call_fails)
  next
    case (Inr c)
    show ?thesis
    proof (cases "choices c")
      case Nil
      with Some Inr show ?thesis by (rule no_choice)
    next
      case (Cons ch rest)
      with Some Inr show ?thesis by (rule prints)
    qed
  qed
qed

text \<open>A run that fails has written nothing, and has issued one request at most.\<close>

lemma failed_run_writes_nothing:
  assumes "fst (main w) = Inl e"
  shows "stdout (snd (main w)) = [] \<and> length (outbound (snd (main w))) \<le> 1"
proof (cases w rule: main_cases)
  case no_key
  then show ?thesis by (simp add: main_no_key)
next
  case (call_fails k f)
  then show ?thesis by (simp add: main_call_fails)
next
  case (no_choice k c)
  then show ?thesis by (simp add: main_no_choice)
next
  case (prints k c ch rest)
  with assms show ?thesis by (simp add: main_prints)
qed

text \<open>What the worlds above hold.\<close>

lemma good_world_key: "environ good_world ''OPENAI_API_KEY'' = Some ''sk-test''"
  by (simp add: good_world_def)

lemma good_world_service: "service good_world r = Inr two_choices"
  by (simp add: good_world_def)

lemma two_choices_split:
  "choices two_choices =
     \<lparr>message = \<lparr>content = Some ''There once was a snake''\<rparr>\<rparr>
       # [\<lparr>message = \<lparr>content = Some ''A second candidate''\<rparr>\<rparr>]"
  by (simp add: two_choices_def)

lemma no_key_world_key: "environ no_key_world ''OPENAI_API_KEY'' = None"
  by (simp add: no_key_world_def)

lemma rejecting_world_key: "environ rejecting_world ''OPENAI_API_KEY'' = Some ''sk-test''"
  by (simp add: rejecting_world_def)

lemma rejecting_world_service: "service rejecting_world r = Inl AuthenticationError"
  by (simp add: rejecting_world_def)

section \<open>The properties of the design\<close>

text \<open>
  C1. On every invocation, every request sent to the chat-completion endpoint carries
  exactly two messages, in this order: first role "system" with content
  "You're a helpful assistant.", then role "user" with content
  "Write a limerick about the Python programming language.". The list is the same in
  every outside world, so it depends on no input.
\<close>

theorem request_messages_fixed:
  "\<forall>r \<in> set (outbound (snd (main w))).
     map_of (params r) ''messages'' =
       Some (List [Dict [(''role'', Str ''system''),
                         (''content'', Str ''You're a helpful assistant.'')],
                   Dict [(''role'', Str ''user''),
                         (''content'',
                          Str ''Write a limerick about the Python programming language.'')]])"
proof (cases w rule: main_cases)
  case no_key
  then show ?thesis by (simp add: main_no_key)
next
  case (call_fails k f)
  then show ?thesis by (simp add: main_call_fails sent_def)
next
  case (no_choice k c)
  then show ?thesis by (simp add: main_no_choice sent_def)
next
  case (prints k c ch rest)
  then show ?thesis by (simp add: main_prints sent_def)
qed

theorem request_messages_fixed_witness:
  "sent ''sk-test'' \<in> set (outbound (snd (main good_world))) \<and>
   map_of (params (sent ''sk-test'')) ''messages'' =
     Some (List [Dict [(''role'', Str ''system''),
                       (''content'', Str ''You're a helpful assistant.'')],
                 Dict [(''role'', Str ''user''),
                       (''content'',
                        Str ''Write a limerick about the Python programming language.'')]])"
proof -
  have mem: "sent ''sk-test'' \<in> set (outbound (snd (main good_world)))"
    by (simp add: main_prints [OF good_world_key good_world_service two_choices_split])
  from request_messages_fixed [of good_world] mem show ?thesis
    by blast
qed

text \<open>
  C2. Of a completion the service returns, only the content of the first choice's
  message is consumed. When the completion holds further choices, the run is the one
  it would be had the service returned the first choice alone: the same result and the
  same effects. It does not fail, and what it writes is determined by the first
  choice's content.
\<close>

theorem only_first_choice_read:
  assumes "environ w ''OPENAI_API_KEY'' = Some k" and "service w (sent k) = Inr c"
    and "choices c = ch # rest"
  shows "main w = main (w\<lparr>service := \<lambda>r. Inr \<lparr>choices = [ch]\<rparr>\<rparr>) \<and>
         fst (main w) = Inr () \<and>
         stdout (snd (main w)) = py_str (content (message ch)) @ [CHR 0x0A]"
proof -
  let ?w1 = "w\<lparr>service := \<lambda>r. Inr \<lparr>choices = [ch]\<rparr>\<rparr>"
  have key1: "environ ?w1 ''OPENAI_API_KEY'' = Some k"
    using assms(1) by simp
  have svc1: "service ?w1 (sent k) = Inr \<lparr>choices = [ch]\<rparr>"
    by simp
  have one: "choices \<lparr>choices = [ch]\<rparr> = ch # []"
    by simp
  show ?thesis
    by (simp add: main_prints [OF assms] main_prints [OF key1 svc1 one])
qed

theorem only_first_choice_read_witness:
  "environ good_world ''OPENAI_API_KEY'' = Some ''sk-test'' \<and>
   service good_world (sent ''sk-test'') = Inr two_choices \<and>
   choices two_choices =
     \<lparr>message = \<lparr>content = Some ''There once was a snake''\<rparr>\<rparr>
       # [\<lparr>message = \<lparr>content = Some ''A second candidate''\<rparr>\<rparr>] \<and>
   main good_world =
     main (good_world\<lparr>service := \<lambda>r. Inr
       \<lparr>choices = [\<lparr>message = \<lparr>content = Some ''There once was a snake''\<rparr>\<rparr>]\<rparr>\<rparr>) \<and>
   fst (main good_world) = Inr () \<and>
   stdout (snd (main good_world)) = ''There once was a snake'' @ [CHR 0x0A]"
proof -
  note run = only_first_choice_read [OF good_world_key good_world_service two_choices_split]
  have out: "stdout (snd (main good_world)) = ''There once was a snake'' @ [CHR 0x0A]"
    using run [THEN conjunct2, THEN conjunct2] by (simp add: py_str_def)
  show ?thesis
    using good_world_key good_world_service [of "sent ''sk-test''"] two_choices_split
      run [THEN conjunct1] run [THEN conjunct2, THEN conjunct1] out
    by blast
qed

text \<open>
  C3. On a successful call, what the run writes to standard output is the text of the
  first choice's message content, character for character, followed by one newline,
  and nothing else.
\<close>

theorem prints_content_verbatim:
  assumes "environ w ''OPENAI_API_KEY'' = Some k" and "service w (sent k) = Inr c"
    and "choices c = ch # rest" and "content (message ch) = Some text"
  shows "fst (main w) = Inr () \<and> stdout (snd (main w)) = text @ [CHR 0x0A]"
  using assms(4) by (simp add: main_prints [OF assms(1-3)] py_str_def)

theorem prints_content_verbatim_witness:
  "environ good_world ''OPENAI_API_KEY'' = Some ''sk-test'' \<and>
   service good_world (sent ''sk-test'') = Inr two_choices \<and>
   choices two_choices =
     \<lparr>message = \<lparr>content = Some ''There once was a snake''\<rparr>\<rparr>
       # [\<lparr>message = \<lparr>content = Some ''A second candidate''\<rparr>\<rparr>] \<and>
   content (message \<lparr>message = \<lparr>content = Some ''There once was a snake''\<rparr>\<rparr>) =
     Some ''There once was a snake'' \<and>
   fst (main good_world) = Inr () \<and>
   stdout (snd (main good_world)) = ''There once was a snake'' @ [CHR 0x0A]"
proof -
  have cont: "content (message \<lparr>message = \<lparr>content = Some ''There once was a snake''\<rparr>\<rparr>) =
      Some ''There once was a snake''"
    by simp
  from prints_content_verbatim [OF good_world_key good_world_service two_choices_split cont]
    good_world_key good_world_service two_choices_split
  show ?thesis by simp
qed

text \<open>
  C4. When the credential variable is absent from the environment, the run fails at
  once: the client is never built, no request is issued, nothing is written to
  standard output, and the process ends with a non-zero status.
\<close>

theorem absent_credential_fails_first:
  assumes "environ w ''OPENAI_API_KEY'' = None"
  shows "fst (main w) = Inl OpenAIError \<and> outbound (snd (main w)) = [] \<and>
         stdout (snd (main w)) = [] \<and> exit_status (fst (main w)) \<noteq> 0"
  by (simp add: main_no_key [OF assms] exit_status_def)

theorem absent_credential_fails_first_witness:
  "environ no_key_world ''OPENAI_API_KEY'' = None \<and>
   fst (main no_key_world) = Inl OpenAIError \<and> outbound (snd (main no_key_world)) = [] \<and>
   stdout (snd (main no_key_world)) = [] \<and> exit_status (fst (main no_key_world)) \<noteq> 0"
  using absent_credential_fails_first [OF no_key_world_key] no_key_world_key
  by blast

text \<open>
  C5, as the script has it. With a credential in the environment and a service that
  answers the request with a completion of at least one choice, the run ends normally
  and standard output holds the first choice's content as \<open>str\<close> gives it, followed
  by a newline. The text before the newline is non-empty exactly when the content is
  not the empty string (a \<open>None\<close> content is written as "None"); with an empty
  content the newline is all that is written.
\<close>

theorem output_is_content_line:
  assumes "environ w ''OPENAI_API_KEY'' = Some k" and "service w (sent k) = Inr c"
    and "choices c = ch # rest"
  shows "fst (main w) = Inr () \<and>
         stdout (snd (main w)) = py_str (content (message ch)) @ [CHR 0x0A] \<and>
         (butlast (stdout (snd (main w))) \<noteq> [] \<longleftrightarrow> content (message ch) \<noteq> Some [])"
proof -
  have text_empty: "py_str v \<noteq> [] \<longleftrightarrow> v \<noteq> Some []" for v
    by (cases v) (simp_all add: py_str_def)
  show ?thesis
    by (simp add: main_prints [OF assms] butlast_append text_empty)
qed

theorem output_is_content_line_witness:
  "environ good_world ''OPENAI_API_KEY'' = Some ''sk-test'' \<and>
   service good_world (sent ''sk-test'') = Inr two_choices \<and>
   choices two_choices =
     \<lparr>message = \<lparr>content = Some ''There once was a snake''\<rparr>\<rparr>
       # [\<lparr>message = \<lparr>content = Some ''A second candidate''\<rparr>\<rparr>] \<and>
   fst (main good_world) = Inr () \<and>
   stdout (snd (main good_world)) = ''There once was a snake'' @ [CHR 0x0A] \<and>
   butlast (stdout (snd (main good_world))) \<noteq> []"
proof -
  note run = output_is_content_line [OF good_world_key good_world_service two_choices_split]
  have out: "stdout (snd (main good_world)) = ''There once was a snake'' @ [CHR 0x0A]"
    using run [THEN conjunct2, THEN conjunct1] by (simp add: py_str_def)
  have some: "butlast (stdout (snd (main good_world))) \<noteq> []"
    using run [THEN conjunct2, THEN conjunct2] by simp
  show ?thesis
    using good_world_key good_world_service [of "sent ''sk-test''"] two_choices_split
      run [THEN conjunct1] out some
    by blast
qed

text \<open>
  C5, as stated, asks for non-empty text on standard output whenever the credential
  is valid and the service answers with at least one choice. When the first choice's
  content is the empty string, the run ends normally and the newline is all it writes:
  there is no text before it.
\<close>

theorem output_text_nonempty_counterexample:
  "environ empty_content_world ''OPENAI_API_KEY'' = Some ''sk-test'' \<and>
   service empty_content_world (sent ''sk-test'') =
     Inr \<lparr>choices = [\<lparr>message = \<lparr>content = Some []\<rparr>\<rparr>]\<rparr> \<and>
   fst (main empty_content_world) = Inr () \<and>
   stdout (snd (main empty_content_world)) = [CHR 0x0A] \<and>
   butlast (stdout (snd (main empty_content_world))) = []"
proof -
  have key: "environ empty_content_world ''OPENAI_API_KEY'' = Some ''sk-test''"
    by (simp add: empty_content_world_def)
  have svc: "service empty_content_world (sent ''sk-test'') =
      Inr \<lparr>choices = [\<lparr>message = \<lparr>content = Some []\<rparr>\<rparr>]\<rparr>"
    by (simp add: empty_content_world_def)
  have one: "choices \<lparr>choices = [\<lparr>message = \<lparr>content = Some []\<rparr>\<rparr>]\<rparr> =
      \<lparr>message = \<lparr>content = Some []\<rparr>\<rparr> # []"
    by simp
  show ?thesis
    by (simp add: main_prints [OF key svc one] key svc py_str_def)
qed

text \<open>
  C6, as the script has it. A run issues one outbound request exactly when the
  credential variable is set, and none when it is absent. The one request names the
  model "gpt-4o" and the two-message list, and sets no other parameter.
\<close>

theorem one_request_when_credential_present:
  "outbound (snd (main w)) =
     (case environ w ''OPENAI_API_KEY'' of
        None \<Rightarrow> []
      | Some k \<Rightarrow>
          [\<lparr>credential = k,
            params =
              [(''model'', Str ''gpt-4o''),
               (''messages'',
                List [Dict [(''role'', Str ''system''),
                            (''content'', Str ''You're a helpful assistant.'')],
                      Dict [(''role'', Str ''user''),
                            (''content'',
                             Str ''Write a limerick about the Python programming language.'')]])]\<rparr>])"
proof (cases w rule: main_cases)
  case no_key
  then show ?thesis by (simp add: main_no_key)
next
  case (call_fails k f)
  then show ?thesis by (simp add: main_call_fails sent_def)
next
  case (no_choice k c)
  then show ?thesis by (simp add: main_no_choice sent_def)
next
  case (prints k c ch rest)
  then show ?thesis by (simp add: main_prints sent_def)
qed

theorem one_request_when_credential_present_witness:
  "outbound (snd (main good_world)) =
     [\<lparr>credential = ''sk-test'',
       params =
         [(''model'', Str ''gpt-4o''),
          (''messages'',
           List [Dict [(''role'', Str ''system''),
                       (''content'', Str ''You're a helpful assistant.'')],
                 Dict [(''role'', Str ''user''),
                       (''content'',
                        Str ''Write a limerick about the Python programming language.'')]])]\<rparr>]"
  using one_request_when_credential_present [of good_world]
  by (simp add: good_world_key)

text \<open>
  C6, as stated, asks for exactly one outbound request on every invocation. The run
  without a credential issues none.
\<close>

theorem one_request_always_counterexample:
  "length (outbound (snd (main no_key_world))) \<noteq> 1"
  by (simp add: main_no_key [OF no_key_world_key])

text \<open>
  C7. When the call fails, the script handles nothing: the run ends with the error
  the call raised, the one request is all that was issued (no second attempt, no
  other path taken), nothing has been written to standard output, and the process
  ends with a non-zero status.
\<close>

theorem call_failure_propagates:
  assumes "environ w ''OPENAI_API_KEY'' = Some k" and "service w (sent k) = Inl f"
  shows "fst (main w) = Inl (APIError f) \<and> outbound (snd (main w)) = [sent k] \<and>
         stdout (snd (main w)) = [] \<and> exit_status (fst (main w)) \<noteq> 0"
  by (simp add: main_call_fails [OF assms] exit_status_def)

theorem call_failure_propagates_witness:
  "environ rejecting_world ''OPENAI_API_KEY'' = Some ''sk-test'' \<and>
   service rejecting_world (sent ''sk-test'') = Inl AuthenticationError \<and>
   fst (main rejecting_world) = Inl (APIError AuthenticationError) \<and>
   outbound (snd (main rejecting_world)) = [sent ''sk-test''] \<and>
   stdout (snd (main rejecting_world)) = [] \<and>
   exit_status (fst (main rejecting_world)) \<noteq> 0"
  using call_failure_propagates [OF rejecting_world_key rejecting_world_service]
    rejecting_world_key rejecting_world_service [of "sent ''sk-test''"]
  by blast

text \<open>
  C8. The script reads the credential variable once, first of all, and checks nothing
  about its value: whatever string the variable holds, the request goes out carrying
  that very string as its credential.
\<close>

theorem credential_passed_unchecked:
  "env_reads (snd (main w)) = [''OPENAI_API_KEY''] \<and>
   (\<forall>k. environ w ''OPENAI_API_KEY'' = Some k \<longrightarrow>
        map credential (outbound (snd (main w))) = [k])"
proof (cases w rule: main_cases)
  case no_key
  then show ?thesis by (simp add: main_no_key)
next
  case (call_fails k f)
  then show ?thesis by (simp add: main_call_fails sent_def)
next
  case (no_choice k c)
  then show ?thesis by (simp add: main_no_choice sent_def)
next
  case (prints k c ch rest)
  then show ?thesis by (simp add: main_prints sent_def)
qed

theorem credential_passed_unchecked_witness:
  "environ odd_key_world ''OPENAI_API_KEY'' = Some ''not a key'' \<and>
   env_reads (snd (main odd_key_world)) = [''OPENAI_API_KEY''] \<and>
   map credential (outbound (snd (main odd_key_world))) = [''not a key'']"
proof -
  have key: "environ odd_key_world ''OPENAI_API_KEY'' = Some ''not a key''"
    by (simp add: odd_key_world_def)
  from credential_passed_unchecked [of odd_key_world] key show ?thesis
    by blast
qed

text \<open>
  C9. When the service returns a completion whose list of choices is empty, the index
  access \<open>choices[0]\<close> raises \<open>IndexError\<close>, and nothing is written to standard
  output.
\<close>

theorem empty_choices_raise:
  assumes "environ w ''OPENAI_API_KEY'' = Some k" and "service w (sent k) = Inr c"
    and "choices c = []"
  shows "fst (main w) = Inl IndexError \<and> stdout (snd (main w)) = []"
  by (simp add: main_no_choice [OF assms])

theorem empty_choices_raise_witness:
  "environ no_choice_world ''OPENAI_API_KEY'' = Some ''sk-test'' \<and>
   service no_choice_world (sent ''sk-test'') = Inr \<lparr>choices = []\<rparr> \<and>
   choices \<lparr>choices = []\<rparr> = [] \<and>
   fst (main no_choice_world) = Inl IndexError \<and> stdout (snd (main no_choice_world)) = []"
proof -
  have key: "environ no_choice_world ''OPENAI_API_KEY'' = Some ''sk-test''"
    by (simp add: no_choice_world_def)
  have svc: "service no_choice_world (sent ''sk-test'') = Inr \<lparr>choices = []\<rparr>"
    by (simp add: no_choice_world_def)
  have none: "choices \<lparr>choices = []\<rparr> = []"
    by simp
  from empty_choices_raise [OF key svc none] key svc none show ?thesis
    by blast
qed

text \<open>
  C10. When the content of the first choice's message is \<open>None\<close>, the run does not
  fail: it writes the four letters "None" and a newline.
\<close>

theorem null_content_prints_None:
  assumes "environ w ''OPENAI_API_KEY'' = Some k" and "service w (sent k) = Inr c"
    and "choices c = ch # rest" and "content (message ch) = None"
  shows "fst (main w) = Inr () \<and> stdout (snd (main w)) = ''None'' @ [CHR 0x0A]"
  using assms(4) by (simp add: main_prints [OF assms(1-3)] py_str_def)

theorem null_content_prints_None_witness:
  "environ null_content_world ''OPENAI_API_KEY'' = Some ''sk-test'' \<and>
   service null_content_world (sent ''sk-test'') =
     Inr \<lparr>choices = [\<lparr>message = \<lparr>content = None\<rparr>\<rparr>]\<rparr> \<and>
   choices \<lparr>choices = [\<lparr>message = \<lparr>content = None\<rparr>\<rparr>]\<rparr> =
     \<lparr>message = \<lparr>content = None\<rparr>\<rparr> # [] \<and>
   content (message \<lparr>message = \<lparr>content = None\<rparr>\<rparr>) = None \<and>
   fst (main null_content_world) = Inr () \<and>
   stdout (snd (main null_content_world)) = ''None'' @ [CHR 0x0A]"
proof -
  have key: "environ null_content_world ''OPENAI_API_KEY'' = Some ''sk-test''"
    by (simp add: null_content_world_def)
  have svc: "service null_content_world (sent ''sk-test'') =
      Inr \<lparr>choices = [\<lparr>message = \<lparr>content = None\<rparr>\<rparr>]\<rparr>"
    by (simp add: null_content_world_def)
  have one: "choices \<lparr>choices = [\<lparr>message = \<lparr>content = None\<rparr>\<rparr>]\<rparr> =
      \<lparr>message = \<lparr>content = None\<rparr>\<rparr> # []"
    by simp
  have null: "content (message \<lparr>message = \<lparr>content = None\<rparr>\<rparr>) = None"
    by simp
  from null_content_prints_None [OF key svc one null] key svc one null show ?thesis
    by blast
qed

end
